theory Spec2Isabelle
  imports Complex_Main "HOL-Library.Log_Nat"
begin

section \<open>JavaScript numbers\<close>

text \<open>
  Every number of the program is a JavaScript number. The model keeps the three
  special values apart from the finite ones, because the program can produce them (a
  division by a zero track width, a duration that is not a number) and because
  comparisons, truthiness, \<open>Math.max\<close> and \<open>Math.min\<close> treat them specially.
  A finite value is a rational, and the operations of this section are exact on finite
  values. The operations of the program round their results to binary64; they are the
  subject of the next section, and the claim about rounding error is stated on them.
  The sign of zero is not modelled.
\<close>

datatype jsnum = Fin rat | PInf | NInf | NaN

text \<open>\<open>a / b\<close>. A zero divisor is the positive zero.\<close>

fun js_div :: "jsnum \<Rightarrow> jsnum \<Rightarrow> jsnum" where
  "js_div NaN _ = NaN"
| "js_div _ NaN = NaN"
| "js_div (Fin a) (Fin b) =
     (if b = 0 then (if a = 0 then NaN else if 0 < a then PInf else NInf)
      else Fin (a / b))"
| "js_div (Fin a) PInf = Fin 0"
| "js_div (Fin a) NInf = Fin 0"
| "js_div PInf (Fin b) = (if b < 0 then NInf else PInf)"
| "js_div NInf (Fin b) = (if b < 0 then PInf else NInf)"
| "js_div PInf PInf = NaN"
| "js_div PInf NInf = NaN"
| "js_div NInf PInf = NaN"
| "js_div NInf NInf = NaN"

text \<open>\<open>a * b\<close>.\<close>

fun js_mul :: "jsnum \<Rightarrow> jsnum \<Rightarrow> jsnum" where
  "js_mul NaN _ = NaN"
| "js_mul _ NaN = NaN"
| "js_mul (Fin a) (Fin b) = Fin (a * b)"
| "js_mul (Fin a) PInf = (if a = 0 then NaN else if 0 < a then PInf else NInf)"
| "js_mul (Fin a) NInf = (if a = 0 then NaN else if 0 < a then NInf else PInf)"
| "js_mul PInf (Fin b) = (if b = 0 then NaN else if 0 < b then PInf else NInf)"
| "js_mul NInf (Fin b) = (if b = 0 then NaN else if 0 < b then NInf else PInf)"
| "js_mul PInf PInf = PInf"
| "js_mul PInf NInf = NInf"
| "js_mul NInf PInf = NInf"
| "js_mul NInf NInf = PInf"

text \<open>\<open>a - b\<close>.\<close>

fun js_sub :: "jsnum \<Rightarrow> jsnum \<Rightarrow> jsnum" where
  "js_sub NaN _ = NaN"
| "js_sub _ NaN = NaN"
| "js_sub (Fin a) (Fin b) = Fin (a - b)"
| "js_sub (Fin a) PInf = NInf"
| "js_sub (Fin a) NInf = PInf"
| "js_sub PInf (Fin b) = PInf"
| "js_sub NInf (Fin b) = NInf"
| "js_sub PInf PInf = NaN"
| "js_sub PInf NInf = PInf"
| "js_sub NInf PInf = NInf"
| "js_sub NInf NInf = NaN"

text \<open>\<open>a <= b\<close> and \<open>a < b\<close>: false as soon as one side is \<open>NaN\<close>.\<close>

fun js_le :: "jsnum \<Rightarrow> jsnum \<Rightarrow> bool" where
  "js_le NaN _ = False"
| "js_le _ NaN = False"
| "js_le (Fin a) (Fin b) = (a \<le> b)"
| "js_le NInf _ = True"
| "js_le _ PInf = True"
| "js_le PInf _ = False"
| "js_le _ NInf = False"

fun js_lt :: "jsnum \<Rightarrow> jsnum \<Rightarrow> bool" where
  "js_lt NaN _ = False"
| "js_lt _ NaN = False"
| "js_lt (Fin a) (Fin b) = (a < b)"
| "js_lt PInf _ = False"
| "js_lt _ NInf = False"
| "js_lt NInf _ = True"
| "js_lt _ PInf = True"

text \<open>\<open>a > b\<close> is \<open>b < a\<close>.\<close>

definition js_gt :: "jsnum \<Rightarrow> jsnum \<Rightarrow> bool" where
  "js_gt a b = js_lt b a"

text \<open>\<open>Math.max(a, b)\<close> and \<open>Math.min(a, b)\<close>: \<open>NaN\<close> as soon as one argument is.\<close>

fun js_max :: "jsnum \<Rightarrow> jsnum \<Rightarrow> jsnum" where
  "js_max NaN _ = NaN"
| "js_max _ NaN = NaN"
| "js_max a b = (if js_le a b then b else a)"

fun js_min :: "jsnum \<Rightarrow> jsnum \<Rightarrow> jsnum" where
  "js_min NaN _ = NaN"
| "js_min _ NaN = NaN"
| "js_min a b = (if js_le a b then a else b)"

text \<open>\<open>!a\<close> for a number: \<open>0\<close> and \<open>NaN\<close> are falsy, every other number is truthy.\<close>

fun falsy :: "jsnum \<Rightarrow> bool" where
  "falsy (Fin a) = (a = 0)"
| "falsy PInf = False"
| "falsy NInf = False"
| "falsy NaN = True"

text \<open>\<open>Math.round(a)\<close>: the nearest integer, a half rounded up.\<close>

fun js_round :: "jsnum \<Rightarrow> jsnum" where
  "js_round (Fin a) = Fin (of_int \<lfloor>a + 1/2\<rfloor>)"
| "js_round PInf = PInf"
| "js_round NInf = NInf"
| "js_round NaN = NaN"

section \<open>Binary64 arithmetic\<close>

text \<open>
  A JavaScript number is an IEEE 754 binary64 value, and \<open>/\<close> and \<open>*\<close> return the
  exact result rounded to the nearest such value, ties to the even significand.

  \<open>expo x\<close> is the exponent of \<open>x\<close>: the \<open>e\<close> with \<open>2^e <= |x| < 2^(e+1)\<close>. The
  values around \<open>x\<close> are the multiples of \<open>2^(e - 52)\<close>, and those of \<open>2^(-1074)\<close>
  below the smallest normal number \<open>2^(-1022)\<close>; \<open>grid x\<close> is that exponent.
\<close>

definition expo :: "rat \<Rightarrow> int" where
  "expo x =
     (let (p, q) = quotient_of \<bar>x\<bar>; n = bitlen p - bitlen q
      in if 2 powi n \<le> \<bar>x\<bar> then n else n - 1)"

text \<open>The nearest integer, a tie going to the even one.\<close>

definition round_even :: "rat \<Rightarrow> int" where
  "round_even z =
     (let f = \<lfloor>z\<rfloor>; r = z - of_int f
      in if r < 1/2 then f else if 1/2 < r then f + 1 else if even f then f else f + 1)"

definition grid :: "rat \<Rightarrow> int" where
  "grid x = max (expo x) (- 1022) - 52"

text \<open>The nearest multiple of \<open>2^(grid x)\<close>.\<close>

definition nearest :: "rat \<Rightarrow> rat" where
  "nearest x = of_int (round_even (x / 2 powi grid x)) * 2 powi grid x"

text \<open>
  The rounding of an exact result: a value that rounds to a magnitude of \<open>2^1024\<close>
  or more overflows to an infinity.
\<close>

definition fl :: "rat \<Rightarrow> jsnum" where
  "fl x =
     (let y = nearest x
      in if 2 powi 1024 \<le> \<bar>y\<bar> then (if 0 < y then PInf else NInf) else Fin y)"

text \<open>The rationals that are binary64 values.\<close>

definition double :: "rat \<Rightarrow> bool" where
  "double x = (fl x = Fin x)"

text \<open>The operations \<open>a / b\<close> and \<open>a * b\<close> as the program computes them.\<close>

fun rnd :: "jsnum \<Rightarrow> jsnum" where
  "rnd (Fin x) = fl x"
| "rnd PInf = PInf"
| "rnd NInf = NInf"
| "rnd NaN = NaN"

definition div64 :: "jsnum \<Rightarrow> jsnum \<Rightarrow> jsnum" where
  "div64 a b = rnd (js_div a b)"

definition mul64 :: "jsnum \<Rightarrow> jsnum \<Rightarrow> jsnum" where
  "mul64 a b = rnd (js_mul a b)"

section \<open>Timeline.jsx\<close>

subsection \<open>colorForMode\<close>

text \<open>
  The \<open>switch\<close> compares the mode with \<open>===\<close> against three string literals and
  has a \<open>default\<close> arm.
\<close>

definition colorForMode :: "string \<Rightarrow> string" where
  "colorForMode m =
     (if m = ''DIALOGUE_SCENE'' then ''#4f46e5''
      else if m = ''VISUAL_MONTAGE'' then ''#ef4444''
      else if m = ''VOICEOVER_WITH_PICTURE'' then ''#10b981''
      else ''#94a3b8'')"

subsection \<open>The playback source and the sampling tick\<close>

text \<open>
  A reference is absent (the prop \<open>videoRef\<close> not passed), or present with a
  \<open>current\<close> that is null or an element.
\<close>

datatype 'a ref = NoRef | Ref "'a option"

fun current :: "'a ref \<Rightarrow> 'a option" where
  "current NoRef = None"
| "current (Ref c) = c"

text \<open>The video element, as far as the program reads and writes it.\<close>

record video =
  currentTime :: jsnum

text \<open>
  One run of \<open>tick\<close>: the call of \<open>setPlayhead\<close> it makes, if any. The guard is
  \<open>videoRef && videoRef.current && duration > 0\<close>.
\<close>

definition tick_publish :: "video ref \<Rightarrow> jsnum \<Rightarrow> jsnum option" where
  "tick_publish videoRef duration =
     (case current videoRef of
        None \<Rightarrow> None
      | Some v \<Rightarrow>
          if js_gt duration (Fin 0) then Some (js_div (currentTime v) duration)
          else None)"

text \<open>
  The state \<open>playhead\<close> after one run of \<open>tick\<close>: the published value, or the
  value it had when nothing is published.
\<close>

definition tick :: "video ref \<Rightarrow> jsnum \<Rightarrow> jsnum \<Rightarrow> jsnum" where
  "tick videoRef duration playhead =
     (case tick_publish videoRef duration of None \<Rightarrow> playhead | Some p \<Rightarrow> p)"

text \<open>
  The loop reschedules itself on every animation frame until the effect is cleaned up.
  A run of it over finitely many frames: each frame comes with the playback source as
  it is at that frame.
\<close>

fun ticks :: "video ref list \<Rightarrow> jsnum \<Rightarrow> jsnum \<Rightarrow> jsnum" where
  "ticks [] duration playhead = playhead"
| "ticks (r # rs) duration playhead = ticks rs duration (tick r duration playhead)"

subsection \<open>pct\<close>

definition pct :: "jsnum \<Rightarrow> jsnum \<Rightarrow> jsnum" where
  "pct duration t =
     (if falsy duration \<or> js_le duration (Fin 0) then Fin 0
      else js_max (Fin 0) (js_min (Fin 100) (js_mul (js_div t duration) (Fin 100))))"

text \<open>The same function with the rounding of its division and its product.\<close>

definition pct64 :: "jsnum \<Rightarrow> jsnum \<Rightarrow> jsnum" where
  "pct64 duration t =
     (if falsy duration \<or> js_le duration (Fin 0) then Fin 0
      else js_max (Fin 0) (js_min (Fin 100) (mul64 (div64 t duration) (Fin 100))))"

subsection \<open>handleClick\<close>

text \<open>The rectangle \<open>getBoundingClientRect()\<close> returns, as far as it is read.\<close>

record rect =
  rect_left :: jsnum
  rect_width :: jsnum

text \<open>
  \<open>handleClick\<close> returns at once when the container is not mounted or no \<open>onSeek\<close>
  was passed; otherwise it calls \<open>onSeek\<close> once. The callback acts on a state of the
  caller's, so the handler is a state transformer.
\<close>

definition handleClick ::
  "rect option \<Rightarrow> (jsnum \<Rightarrow> 's \<Rightarrow> 's) option \<Rightarrow> jsnum \<Rightarrow> jsnum \<Rightarrow> 's \<Rightarrow> 's" where
  "handleClick container onSeek duration clientX s =
     (case container of
        None \<Rightarrow> s
      | Some r \<Rightarrow>
          (case onSeek of
             None \<Rightarrow> s
           | Some f \<Rightarrow>
               (let x = js_sub clientX (rect_left r);
                    p = js_div x (rect_width r)
                in f (js_mul p duration) s)))"

text \<open>
  The product \<open>p * duration\<close> of \<open>handleClick\<close> with its rounding: the time that
  the fraction \<open>p\<close> of the track stands for.
\<close>

definition percentToTime64 :: "jsnum \<Rightarrow> jsnum \<Rightarrow> jsnum" where
  "percentToTime64 p duration = mul64 p duration"

subsection \<open>The rendered track\<close>

record segment =
  mode :: string
  start :: jsnum
  stop :: jsnum

text \<open>
  The inline style of one segment (the field \<open>stop\<close> is the source's \<open>end\<close>), and
  the track: the segments in their order, then the playhead. The \<open>title\<close> attribute
  is left out.
\<close>

record seg_style =
  left :: jsnum
  width :: jsnum
  background :: string

definition segment_style :: "jsnum \<Rightarrow> segment \<Rightarrow> seg_style" where
  "segment_style duration s =
     \<lparr>left = pct duration (start s),
      width = js_max (Fin (1/5)) (js_sub (pct duration (stop s)) (pct duration (start s))),
      background = colorForMode (mode s)\<rparr>"

record track =
  segs :: "seg_style list"
  playhead_left :: jsnum

definition Timeline :: "segment list \<Rightarrow> jsnum \<Rightarrow> jsnum \<Rightarrow> track" where
  "Timeline segments duration playhead =
     \<lparr>segs = map (segment_style duration) segments,
      playhead_left = js_mul playhead (Fin 100)\<rparr>"

section \<open>App.jsx\<close>

subsection \<open>handleSeek\<close>

text \<open>
  The setter of \<open>currentTime\<close> takes a double that must be finite: given \<open>NaN\<close> or an
  infinity it throws a \<open>TypeError\<close> and leaves the element as it is. Nothing in the
  program catches that exception.
\<close>

fun finite_num :: "jsnum \<Rightarrow> bool" where
  "finite_num (Fin a) = True"
| "finite_num _ = False"

datatype setter_error = NotFinite jsnum

definition set_currentTime :: "jsnum \<Rightarrow> video \<Rightarrow> setter_error + video" where
  "set_currentTime t v = (if finite_num t then Inr (v\<lparr>currentTime := t\<rparr>) else Inl (NotFinite t))"

text \<open>
  The playback source as the application holds it: \<open>videoRef.current\<close> (null while
  no local file is chosen, since the element is rendered only with a \<open>src\<close>), a log of
  the assignments made to \<open>currentTime\<close>, oldest first, and a log of the exceptions
  the setter threw. The logs are not variables of the program: they record the effect
  the program has on the element.
\<close>

record player =
  element :: "video option"
  assigned :: "jsnum list"
  uncaught :: "setter_error list"

definition handleSeek :: "jsnum \<Rightarrow> player \<Rightarrow> player" where
  "handleSeek t pl =
     (case element pl of
        None \<Rightarrow> pl
      | Some v \<Rightarrow>
          (case set_currentTime t v of
             Inl e \<Rightarrow> pl\<lparr>uncaught := uncaught pl @ [e]\<rparr>
           | Inr v' \<Rightarrow> pl\<lparr>element := Some v', assigned := assigned pl @ [t]\<rparr>))"

text \<open>
  A callback that only records the times it is called with: the seek requests a
  handler issues, whatever the caller does with them.
\<close>

definition record_seek :: "jsnum \<Rightarrow> jsnum list \<Rightarrow> jsnum list" where
  "record_seek t reqs = reqs @ [t]"

subsection \<open>The state of the application\<close>

text \<open>
  What the server sent, as far as the handlers read it: a body that does not parse, the
  value \<open>null\<close> (reading a property of it throws), or a value with the properties
  \<open>segments\<close> and \<open>duration\<close>, each \<open>None\<close> when it is missing.
\<close>

datatype payload = JNull | JObj "segment list option" "jsnum option"

datatype body = Unparsable | Parsed payload

record response =
  status :: nat
  statusText :: string
  responseText :: "string option"
  responseBody :: body

text \<open>What \<open>await fetch\<close> gives: a rejection, or a response.\<close>

datatype fetch_outcome = Rejected string | Resolved response

text \<open>The messages of \<open>setError\<close>, by their origin and their parameters.\<close>

datatype thrown =
    FetchRejected string
  | ServerError nat string
  | TextRejected
  | JsonRejected
  | TypeError

datatype message =
    MissingServerPath
  | Caught thrown
  | NoLocalFile
  | ParseFailed
  | UploadFailed nat string
  | UploadNetworkError

record app =
  localFile :: "string option"
  serverPath :: string
  segments :: "segment list"
  duration :: jsnum
  loading :: bool
  error :: "message option"
  uploadProgress :: "jsnum option"

text \<open>\<open>data.segments || []\<close> and \<open>data.duration || 0\<close>.\<close>

definition segments_or_empty :: "segment list option \<Rightarrow> segment list" where
  "segments_or_empty s = (case s of None \<Rightarrow> [] | Some xs \<Rightarrow> xs)"

definition duration_or_zero :: "jsnum option \<Rightarrow> jsnum" where
  "duration_or_zero d = (case d of None \<Rightarrow> Fin 0 | Some x \<Rightarrow> if falsy x then Fin 0 else x)"

text \<open>\<open>res.ok\<close>, and the test \<open>xhr.status >= 200 && xhr.status < 300\<close>.\<close>

definition ok :: "nat \<Rightarrow> bool" where
  "ok st = (200 \<le> st \<and> st < 300)"

text \<open>\<open>onLoadedMetadata\<close> of the player: \<open>setDuration(el.duration)\<close>.\<close>

definition onLoadedMetadata :: "jsnum \<Rightarrow> app \<Rightarrow> app" where
  "onLoadedMetadata d a = a\<lparr>duration := d\<rparr>"

subsection \<open>handleAnalyze\<close>

text \<open>
  The handler up to its \<open>await fetch\<close>: the state it leaves, and the \<open>video_path\<close>
  of the request when one is sent.
\<close>

definition handleAnalyze_sync :: "app \<Rightarrow> app \<times> string option" where
  "handleAnalyze_sync a =
     (let a1 = a\<lparr>error := None, segments := [], duration := Fin 0\<rparr>
      in if serverPath a1 = [] then (a1\<lparr>error := Some MissingServerPath\<rparr>, None)
         else (a1\<lparr>loading := True\<rparr>, Some (serverPath a1)))"

text \<open>
  The body of the \<open>try\<close>: the exception it throws, or the two values it sets.
\<close>

definition analyze_try :: "fetch_outcome \<Rightarrow> thrown + segment list \<times> jsnum" where
  "analyze_try out =
     (case out of
        Rejected e \<Rightarrow> Inl (FetchRejected e)
      | Resolved res \<Rightarrow>
          if \<not> ok (status res) then
            (case responseText res of
               None \<Rightarrow> Inl TextRejected
             | Some txt \<Rightarrow> Inl (ServerError (status res) txt))
          else
            (case responseBody res of
               Unparsable \<Rightarrow> Inl JsonRejected
             | Parsed JNull \<Rightarrow> Inl TypeError
             | Parsed (JObj s d) \<Rightarrow> Inr (segments_or_empty s, duration_or_zero d)))"

text \<open>The handler from the point where the \<open>await\<close> resumes, with \<open>catch\<close> and \<open>finally\<close>.\<close>

definition handleAnalyze_resume :: "fetch_outcome \<Rightarrow> app \<Rightarrow> app" where
  "handleAnalyze_resume out a =
     (case analyze_try out of
        Inl e \<Rightarrow> a\<lparr>error := Some (Caught e), loading := False\<rparr>
      | Inr (s, d) \<Rightarrow> a\<lparr>segments := s, duration := d, loading := False\<rparr>)"

text \<open>The whole handler, when nothing else happens while the request is in flight.\<close>

definition handleAnalyze :: "fetch_outcome \<Rightarrow> app \<Rightarrow> app" where
  "handleAnalyze out a =
     (case handleAnalyze_sync a of
        (a1, None) \<Rightarrow> a1
      | (a1, Some _) \<Rightarrow> handleAnalyze_resume out a1)"

subsection \<open>handleUpload\<close>

text \<open>
  The handler up to \<open>xhr.send\<close>: the state it leaves, and the file it sends when it
  sends one.
\<close>

definition handleUpload_sync :: "app \<Rightarrow> app \<times> string option" where
  "handleUpload_sync a =
     (let a1 = a\<lparr>error := None, segments := [], duration := Fin 0\<rparr>
      in case localFile a1 of
           None \<Rightarrow> (a1\<lparr>error := Some NoLocalFile\<rparr>, None)
         | Some f \<Rightarrow> (a1\<lparr>loading := True, uploadProgress := Some (Fin 0)\<rparr>, Some f))"

text \<open>
  The events of the request: a progress event (\<open>lengthComputable\<close>, \<open>loaded\<close>,
  \<open>total\<close>), a change of \<open>readyState\<close> (with the response as it is then), an error.
\<close>

datatype xhr_event =
    Progress bool jsnum jsnum
  | ReadyStateChange nat response
  | NetworkFailure

fun xhr_handler :: "xhr_event \<Rightarrow> app \<Rightarrow> app" where
  "xhr_handler (Progress computable loaded tot) a =
     (if computable
      then a\<lparr>uploadProgress := Some (js_round (js_mul (js_div loaded tot) (Fin 100)))\<rparr>
      else a)"
| "xhr_handler (ReadyStateChange readyState res) a =
     (if readyState = 4 then
        (let a1 = a\<lparr>loading := False, uploadProgress := None\<rparr>
         in if ok (status res) then
              (case responseBody res of
                 Unparsable \<Rightarrow> a1\<lparr>error := Some ParseFailed\<rparr>
               | Parsed JNull \<Rightarrow> a1\<lparr>error := Some ParseFailed\<rparr>
               | Parsed (JObj s d) \<Rightarrow>
                   a1\<lparr>segments := segments_or_empty s, duration := duration_or_zero d\<rparr>)
            else a1\<lparr>error := Some (UploadFailed (status res) (statusText res))\<rparr>)
      else a)"
| "xhr_handler NetworkFailure a =
     a\<lparr>loading := False, uploadProgress := None, error := Some UploadNetworkError\<rparr>"

text \<open>The events of a request, handled in their order.\<close>

fun xhr_run :: "xhr_event list \<Rightarrow> app \<Rightarrow> app" where
  "xhr_run [] a = a"
| "xhr_run (e # es) a = xhr_run es (xhr_handler e a)"

text \<open>The whole handler, when nothing else happens while the request is in flight.\<close>

definition handleUpload :: "xhr_event list \<Rightarrow> app \<Rightarrow> app" where
  "handleUpload es a =
     (case handleUpload_sync a of
        (a1, None) \<Rightarrow> a1
      | (a1, Some _) \<Rightarrow> xhr_run es a1)"

text \<open>
  A request fails when it does not answer with a status in 200..299 and a body that
  parses to a value whose properties can be read.
\<close>

fun fetch_fails :: "fetch_outcome \<Rightarrow> bool" where
  "fetch_fails (Rejected e) = True"
| "fetch_fails (Resolved res) =
     (if ok (status res)
      then (case responseBody res of Parsed (JObj s d) \<Rightarrow> False | _ \<Rightarrow> True)
      else True)"

fun xhr_delivers :: "xhr_event \<Rightarrow> bool" where
  "xhr_delivers (ReadyStateChange readyState res) =
     (readyState = 4 \<and> ok (status res) \<and>
      (case responseBody res of Parsed (JObj s d) \<Rightarrow> True | _ \<Rightarrow> False))"
| "xhr_delivers _ = False"

section \<open>The contract of the specification\<close>

text \<open>
  The Seek Controller as the specification words it: \<open>fraction = clamp(x/W, 0, 1)\<close>,
  and the time requested is \<open>fraction * D\<close>. These two definitions follow the
  specification, not the source; the theorems compare them with \<open>handleClick\<close>.
\<close>

definition clamp :: "jsnum \<Rightarrow> jsnum \<Rightarrow> jsnum \<Rightarrow> jsnum" where
  "clamp v lo hi = js_max lo (js_min hi v)"


section \<open>Properties\<close>

subsection \<open>Auxiliary facts\<close>

lemma pct_Fin:
  "pct (Fin d) (Fin t) = (if d \<le> 0 then Fin 0 else Fin (max 0 (min 100 (t / d * 100))))"
  by (auto simp: pct_def max_def min_def)

lemma pct_nonpositive: "js_le d (Fin 0) \<Longrightarrow> pct d t = Fin 0"
  by (simp add: pct_def)

lemma pct_zero: "pct (Fin 0) t = Fin 0"
  by (simp add: pct_def)

lemma pct_in_track: "\<exists>q. pct d (Fin t) = Fin q \<and> 0 \<le> q \<and> q \<le> 100"
  by (cases d) (auto simp: pct_def)

lemma tick_publish_None: "js_le d (Fin 0) \<Longrightarrow> tick_publish r d = None"
  by (cases d) (auto simp: tick_publish_def js_gt_def split: option.splits)

lemma tick_idle: "js_le d (Fin 0) \<Longrightarrow> tick r d p = p"
  by (simp add: tick_def tick_publish_None)

lemma ticks_idle: "js_le d (Fin 0) \<Longrightarrow> ticks rs d p = p"
  by (induction rs arbitrary: p) (simp_all add: tick_idle)

lemma handleClick_record:
  "handleClick (Some r) (Some record_seek) d x reqs =
     reqs @ [js_mul (js_div (js_sub x (rect_left r)) (rect_width r)) d]"
  by (simp add: handleClick_def record_seek_def)

lemma handleClick_Fin:
  "w \<noteq> 0 \<Longrightarrow>
   handleClick (Some \<lparr>rect_left = Fin l, rect_width = Fin w\<rparr>) (Some f) (Fin d) (Fin c) s =
     f (Fin ((c - l) / w * d)) s"
  by (simp add: handleClick_def)

lemma xhr_handler_keeps:
  "\<not> xhr_delivers e \<Longrightarrow>
   segments (xhr_handler e a) = segments a \<and> duration (xhr_handler e a) = duration a"
  by (cases e) (auto simp: Let_def split: body.splits payload.splits)

lemma xhr_run_keeps:
  "\<forall>e \<in> set es. \<not> xhr_delivers e \<Longrightarrow>
   segments (xhr_run es a) = segments a \<and> duration (xhr_run es a) = duration a"
  by (induction es arbitrary: a) (simp_all add: xhr_handler_keeps)

lemma analyze_try_fails: "fetch_fails out \<Longrightarrow> \<exists>e. analyze_try out = Inl e"
  by (cases out) (auto simp: analyze_try_def split: option.splits body.splits payload.splits if_splits)

subsection \<open>The Position Tracker\<close>

text \<open>
  Claim C1, as amended. On every sampling tick: when a playback element is present and
  \<open>duration > 0\<close>, the tick publishes exactly \<open>currentTime / duration\<close>; in every
  other case (no element, or a duration that is not greater than 0) it publishes
  nothing and the playhead keeps the value it had. The published value lies in
  \<open>[0, 1]\<close> when \<open>0 <= currentTime <= duration\<close>. Over any number of frames with
  \<open>duration <= 0\<close> the playhead keeps its value.
\<close>

theorem C1_tick_publishes:
  "(current r = Some v \<and> js_gt d (Fin 0) \<longrightarrow>
      tick_publish r d = Some (js_div (currentTime v) d) \<and>
      tick r d p = js_div (currentTime v) d) \<and>
   (current r = None \<or> \<not> js_gt d (Fin 0) \<longrightarrow>
      tick_publish r d = None \<and> tick r d p = p) \<and>
   (current r = Some v \<and> currentTime v = Fin c \<and> d = Fin x \<and> 0 \<le> c \<and> c \<le> x \<and> 0 < x \<longrightarrow>
      (\<exists>q. tick r d p = Fin q \<and> 0 \<le> q \<and> q \<le> 1)) \<and>
   (js_le d (Fin 0) \<longrightarrow> ticks rs d p = p)"
proof -
  have a: "tick_publish r d = Some (js_div (currentTime v) d) \<and>
           tick r d p = js_div (currentTime v) d"
    if "current r = Some v" "js_gt d (Fin 0)"
    using that by (simp add: tick_def tick_publish_def)
  have b: "tick_publish r d = None \<and> tick r d p = p"
    if "current r = None \<or> \<not> js_gt d (Fin 0)"
    using that by (auto simp: tick_def tick_publish_def split: option.splits)
  have c: "\<exists>q. tick r d p = Fin q \<and> 0 \<le> q \<and> q \<le> 1"
    if "current r = Some v" "currentTime v = Fin c" "d = Fin x" "0 \<le> c" "c \<le> x" "0 < x"
    using that by (simp add: tick_def tick_publish_def js_gt_def divide_le_eq)
  have e: "ticks rs d p = p" if "js_le d (Fin 0)"
    using that by (rule ticks_idle)
  from a b c e show ?thesis by blast
qed

text \<open>
  The theorem at three inputs: an element at 30 seconds of 60, no element, and two
  frames at duration 0.
\<close>

theorem C1_tick_publishes_witness:
  "tick (Ref (Some \<lparr>currentTime = Fin 30\<rparr>)) (Fin 60) (Fin 0) = Fin (1/2) \<and>
   tick (Ref None) (Fin 60) (Fin (1/4)) = Fin (1/4) \<and>
   ticks [Ref None, NoRef] (Fin 0) (Fin (1/2)) = Fin (1/2)"
proof -
  have "tick (Ref (Some \<lparr>currentTime = Fin 30\<rparr>)) (Fin 60) (Fin 0) = Fin (1/2)"
    using C1_tick_publishes [of "Ref (Some \<lparr>currentTime = Fin 30\<rparr>)" "\<lparr>currentTime = Fin 30\<rparr>"
            "Fin 60" "Fin 0" 30 60 "[]"]
    by (simp add: js_gt_def)
  moreover have "tick (Ref None) (Fin 60) (Fin (1/4)) = Fin (1/4)"
    using C1_tick_publishes [of "Ref None" "\<lparr>currentTime = Fin 30\<rparr>" "Fin 60" "Fin (1/4)" 30 60 "[]"]
    by simp
  moreover have "ticks [Ref None, NoRef] (Fin 0) (Fin (1/2)) = Fin (1/2)"
    using C1_tick_publishes [of "Ref None" "\<lparr>currentTime = Fin 30\<rparr>" "Fin 0" "Fin (1/2)" 30 60
            "[Ref None, NoRef]"]
    by (simp del: ticks.simps)
  ultimately show ?thesis by blast
qed

text \<open>
  Claim C1 as it is written fails twice. The playhead is at \<open>1/2\<close> (30 seconds of 60)
  when the duration becomes 0, as it does when an analysis is started: the next tick
  leaves it at \<open>1/2\<close>, not at 0. And with the element at 20 seconds and a duration of
  10 (the duration comes from the analysis of a server-side file, the time from the
  local preview) the tick publishes 2, which is not in \<open>[0, 1]\<close>.
\<close>

theorem C1_counterexample:
  "tick (Ref (Some \<lparr>currentTime = Fin 30\<rparr>)) (Fin 0)
     (tick (Ref (Some \<lparr>currentTime = Fin 30\<rparr>)) (Fin 60) (Fin 0)) = Fin (1/2) \<and>
   tick_publish (Ref (Some \<lparr>currentTime = Fin 20\<rparr>)) (Fin 10) = Some (Fin 2) \<and>
   \<not> js_le (Fin 2) (Fin 1)"
  by (simp add: tick_def tick_publish_def js_gt_def)

subsection \<open>The Seek Controller\<close>


text \<open>
  Claim C2, as amended. A pointer interaction issues no seek request exactly when the
  track container is not mounted or no seek callback was passed. Otherwise it issues
  exactly one request, carrying \<open>((clientX - left) / width) * duration\<close>, also when
  \<open>duration <= 0\<close> or the measured width is 0: with duration 0 and a nonzero width
  the request carries the time 0, and with width 0 it carries a value that is not a
  finite number.
\<close>

theorem C2_click_always_seeks:
  "handleClick None f d x s = s \<and>
   handleClick c None d x s = s \<and>
   handleClick (Some r) (Some record_seek) d x reqs =
     reqs @ [js_mul (js_div (js_sub x (rect_left r)) (rect_width r)) d] \<and>
   (w \<noteq> 0 \<longrightarrow>
      handleClick (Some \<lparr>rect_left = Fin l, rect_width = Fin w\<rparr>) (Some record_seek)
        (Fin 0) (Fin a) reqs = reqs @ [Fin 0]) \<and>
   (\<exists>t. handleClick (Some \<lparr>rect_left = Fin l, rect_width = Fin 0\<rparr>) (Some record_seek)
        (Fin b) (Fin a) reqs = reqs @ [t] \<and> (\<forall>q. t \<noteq> Fin q))"
proof -
  have 1: "handleClick None f d x s = s"
    by (simp add: handleClick_def)
  have 2: "handleClick c None d x s = s"
    by (simp add: handleClick_def split: option.splits)
  have 3: "handleClick (Some \<lparr>rect_left = Fin l, rect_width = Fin w\<rparr>) (Some record_seek)
        (Fin 0) (Fin a) reqs = reqs @ [Fin 0]" if "w \<noteq> 0"
    using that by (simp add: handleClick_Fin record_seek_def)
  have 4: "\<exists>t. handleClick (Some \<lparr>rect_left = Fin l, rect_width = Fin 0\<rparr>) (Some record_seek)
        (Fin b) (Fin a) reqs = reqs @ [t] \<and> (\<forall>q. t \<noteq> Fin q)"
    by (simp add: handleClick_record)
  from 1 2 3 4 handleClick_record show ?thesis by blast
qed

text \<open>The theorem at a click 100 pixels into a track 400 pixels wide, with duration 0.\<close>

theorem C2_click_always_seeks_witness:
  "handleClick (Some \<lparr>rect_left = Fin 8, rect_width = Fin 400\<rparr>) (Some record_seek)
     (Fin 0) (Fin 108) [] = [Fin 0]"
  using C2_click_always_seeks [of "Some record_seek" "Fin 0" "Fin 0" "[]::jsnum list" None
          "\<lparr>rect_left = Fin 8, rect_width = Fin 400\<rparr>" "[]" 400 8 108 0]
  by simp

text \<open>
  Claim C2 as it is written fails: with duration 0, a click at 25 of 100 pixels issues
  a seek request for time 0, and through \<open>handleSeek\<close> an element playing at 7 seconds
  is set back to 0. With a measured width of 0 and duration 200 the request carries
  \<open>Infinity\<close>.
\<close>

theorem C2_counterexample:
  "handleClick (Some \<lparr>rect_left = Fin 0, rect_width = Fin 100\<rparr>) (Some record_seek)
     (Fin 0) (Fin 25) [] = [Fin 0] \<and>
   handleClick (Some \<lparr>rect_left = Fin 0, rect_width = Fin 100\<rparr>) (Some handleSeek)
     (Fin 0) (Fin 25) \<lparr>element = Some \<lparr>currentTime = Fin 7\<rparr>, assigned = [], uncaught = []\<rparr> =
     \<lparr>element = Some \<lparr>currentTime = Fin 0\<rparr>, assigned = [Fin 0], uncaught = []\<rparr> \<and>
   handleClick (Some \<lparr>rect_left = Fin 0, rect_width = Fin 0\<rparr>) (Some record_seek)
     (Fin 200) (Fin 25) [] = [PInf]"
  by (simp add: handleClick_def record_seek_def handleSeek_def set_currentTime_def)




subsection \<open>The Coordinate Mapper\<close>

text \<open>
  Claim C4. For every time \<open>t\<close> and every duration, \<open>pct\<close> (the specification's
  \<open>timeToPercent\<close>) returns 0 when \<open>duration <= 0\<close>, and otherwise
  \<open>t / duration * 100\<close> clamped into \<open>[0, 100]\<close>. The first two parts are about
  finite numbers; the last two are about every JavaScript number, with the clamp of
  the specification read as \<open>Math.max(0, Math.min(100, v))\<close>.
\<close>

theorem C4_pct:
  "pct (Fin d) (Fin t) = (if d \<le> 0 then Fin 0 else Fin (max 0 (min 100 (t / d * 100)))) \<and>
   (\<exists>q. pct (Fin d) (Fin t) = Fin q \<and> 0 \<le> q \<and> q \<le> 100) \<and>
   (js_le e (Fin 0) \<longrightarrow> pct e u = Fin 0) \<and>
   (\<not> js_le e (Fin 0) \<and> e \<noteq> NaN \<longrightarrow>
      pct e u = clamp (js_mul (js_div u e) (Fin 100)) (Fin 0) (Fin 100))"
proof -
  have 1: "\<exists>q. pct (Fin d) (Fin t) = Fin q \<and> 0 \<le> q \<and> q \<le> 100"
    by (rule pct_in_track)
  have 2: "pct e u = clamp (js_mul (js_div u e) (Fin 100)) (Fin 0) (Fin 100)"
    if "\<not> js_le e (Fin 0)" "e \<noteq> NaN"
    using that by (cases e) (simp_all add: pct_def clamp_def)
  from 1 2 pct_Fin pct_nonpositive show ?thesis by blast
qed

text \<open>
  The theorem at a quarter of a duration of 200, at a negative duration, and at the
  infinite durations.
\<close>

theorem C4_pct_witness:
  "pct (Fin 200) (Fin 50) = Fin 25 \<and> pct (Fin (- 3)) (Fin 50) = Fin 0 \<and>
   pct PInf (Fin 50) = Fin 0 \<and> pct NInf NaN = Fin 0"
proof -
  have "pct (Fin 200) (Fin 50) = Fin 25"
    using C4_pct [of 200 50 "Fin 0" NaN] by simp
  moreover have "pct (Fin (- 3)) (Fin 50) = Fin 0"
    using C4_pct [of 1 1 "Fin (- 3)" "Fin 50"] by simp
  moreover have "pct PInf (Fin 50) = Fin 0"
    using C4_pct [of 1 1 PInf "Fin 50"] by (simp add: clamp_def)
  moreover have "pct NInf NaN = Fin 0"
    using C4_pct [of 1 1 NInf NaN] by simp
  ultimately show ?thesis by blast
qed

text \<open>
  Claim C5. For every segment whose mapped extent \<open>pct(end) - pct(start)\<close> is less
  than 0.2, the rendered width is exactly 0.2; with duration 100 a segment from 50.0
  to 50.05 has the width 0.2, not 0.05.
\<close>

theorem C5_width_floor:
  "(js_lt (js_sub (pct d (stop s)) (pct d (start s))) (Fin 0.2) \<longrightarrow>
      width (segment_style d s) = Fin 0.2) \<and>
   width (segment_style (Fin 100) \<lparr>mode = m, start = Fin 50, stop = Fin 50.05\<rparr>) = Fin 0.2"
proof -
  have 1: "js_max (Fin (1/5)) x = Fin (1/5)" if "js_lt x (Fin (1/5))" for x
    using that by (cases x) simp_all
  have 2: "width (segment_style d s) = Fin 0.2"
    if "js_lt (js_sub (pct d (stop s)) (pct d (start s))) (Fin 0.2)" for d s
    using that by (simp add: segment_style_def 1)
  have "width (segment_style (Fin 100) \<lparr>mode = m, start = Fin 50, stop = Fin 50.05\<rparr>) = Fin 0.2"
    by (rule 2) (simp add: pct_Fin)
  with 2 show ?thesis by blast
qed

text \<open>The theorem at the segment from 50.0 to 50.05 of a duration of 100.\<close>

theorem C5_width_floor_witness:
  "js_lt (js_sub (pct (Fin 100) (Fin 50.05)) (pct (Fin 100) (Fin 50))) (Fin 0.2) \<and>
   js_sub (pct (Fin 100) (Fin 50.05)) (pct (Fin 100) (Fin 50)) = Fin 0.05 \<and>
   width (segment_style (Fin 100) \<lparr>mode = ''DIALOGUE_SCENE'', start = Fin 50, stop = Fin 50.05\<rparr>)
     = Fin 0.2"
proof -
  have h: "js_lt (js_sub (pct (Fin 100) (Fin 50.05)) (pct (Fin 100) (Fin 50))) (Fin 0.2)"
    by (simp add: pct_Fin)
  have e: "js_sub (pct (Fin 100) (Fin 50.05)) (pct (Fin 100) (Fin 50)) = Fin 0.05"
    by (simp add: pct_Fin)
  from h e C5_width_floor [of "Fin 100"
      "\<lparr>mode = ''DIALOGUE_SCENE'', start = Fin 50, stop = Fin 50.05\<rparr>" "''X''"]
  show ?thesis by simp
qed

subsection \<open>Rounding\<close>

lemma bitlen_powi:
  assumes "0 < p"
  shows "(2::rat) powi (bitlen p - 1) \<le> of_int p" and "of_int p < (2::rat) powi bitlen p"
proof -
  from assms have b: "1 \<le> bitlen p"
    using bitlen_eq_zero_iff [of p] bitlen_nonneg [of p] by linarith
  from bitlen_bounds [OF assms]
  have 1: "2 ^ nat (bitlen p - 1) \<le> p" and 2: "p < 2 ^ nat (bitlen p)"
    by simp_all
  have "(2::rat) powi (bitlen p - 1) = 2 ^ nat (bitlen p - 1)"
    using b by (simp add: power_int_nonneg_exp)
  also have "\<dots> = of_int (2 ^ nat (bitlen p - 1))"
    by simp
  also have "\<dots> \<le> of_int p"
    using 1 by (simp only: of_int_le_iff)
  finally show "(2::rat) powi (bitlen p - 1) \<le> of_int p" .
  have "(of_int p :: rat) < of_int (2 ^ nat (bitlen p))"
    using 2 by (simp only: of_int_less_iff)
  also have "\<dots> = 2 ^ nat (bitlen p)"
    by simp
  also have "\<dots> = (2::rat) powi bitlen p"
    using b by (simp add: power_int_nonneg_exp)
  finally show "of_int p < (2::rat) powi bitlen p" .
qed

lemma expo_bounds:
  assumes "x \<noteq> 0"
  shows "2 powi expo x \<le> \<bar>x\<bar>" and "\<bar>x\<bar> < 2 powi (expo x + 1)"
proof -
  obtain p q where pq: "quotient_of \<bar>x\<bar> = (p, q)"
    by force
  have q: "0 < q"
    using quotient_of_denom_pos [OF pq] .
  have x: "\<bar>x\<bar> = of_int p / of_int q"
    using quotient_of_div [OF pq] .
  have "0 < \<bar>x\<bar>"
    using assms by simp
  with x q have p: "0 < p"
    by (simp add: zero_less_divide_iff)
  define n where "n = bitlen p - bitlen q"
  have e: "expo x = (if 2 powi n \<le> \<bar>x\<bar> then n else n - 1)"
    by (simp add: expo_def pq n_def Let_def)
  have qr: "0 < (of_int q :: rat)"
    using q by simp
  have lo: "2 powi (n - 1) \<le> \<bar>x\<bar>"
  proof -
    have "(2::rat) powi (n - 1) = 2 powi (bitlen p - 1) / 2 powi bitlen q"
      by (simp add: n_def power_int_diff)
    also have "\<dots> \<le> of_int p / 2 powi bitlen q"
      using bitlen_powi(1) [OF p] by (simp add: divide_right_mono)
    also have "\<dots> \<le> of_int p / of_int q"
      using bitlen_powi(2) [OF q] p qr by (simp add: frac_le)
    finally show ?thesis
      by (simp add: x)
  qed
  have hi: "\<bar>x\<bar> < 2 powi (n + 1)"
  proof -
    have "\<bar>x\<bar> = of_int p / of_int q"
      by (rule x)
    also have "\<dots> < 2 powi bitlen p / of_int q"
      using bitlen_powi(2) [OF p] qr by (simp add: divide_strict_right_mono)
    also have "\<dots> \<le> 2 powi bitlen p / 2 powi (bitlen q - 1)"
      using bitlen_powi(1) [OF q] by (simp add: frac_le)
    also have "\<dots> = 2 powi (n + 1)"
      by (simp add: n_def power_int_diff [symmetric] algebra_simps)
    finally show ?thesis .
  qed
  show "2 powi expo x \<le> \<bar>x\<bar>"
    using lo by (simp add: e)
  show "\<bar>x\<bar> < 2 powi (expo x + 1)"
    using hi by (auto simp: e not_le)
qed

lemma expo_mono:
  assumes "0 < x" "x \<le> c"
  shows "expo x \<le> expo c"
proof -
  have "2 powi expo x \<le> \<bar>x\<bar>"
    using assms by (intro expo_bounds) simp
  also have "\<dots> \<le> \<bar>c\<bar>"
    using assms by simp
  also have "\<dots> < 2 powi (expo c + 1)"
    using assms by (intro expo_bounds) simp
  finally have "(2::rat) powi expo x < 2 powi (expo c + 1)" .
  then have "\<not> expo c + 1 \<le> expo x"
    using power_int_increasing [of "expo c + 1" "expo x" "2::rat"] by auto
  then show ?thesis
    by simp
qed

lemma round_even_cases: "round_even z = \<lfloor>z\<rfloor> \<or> round_even z = \<lfloor>z\<rfloor> + 1"
  by (simp add: round_even_def Let_def)

lemma round_even_error: "\<bar>of_int (round_even z) - z\<bar> \<le> 1/2"
proof -
  have "of_int \<lfloor>z\<rfloor> \<le> z" "z < of_int \<lfloor>z\<rfloor> + 1"
    by linarith+
  then show ?thesis
    by (auto simp: round_even_def Let_def abs_le_iff)
qed

lemma round_even_le:
  assumes "z \<le> of_int n"
  shows "round_even z \<le> n"
proof (cases "\<lfloor>z\<rfloor> + 1 \<le> n")
  case True
  with round_even_cases [of z] show ?thesis
    by auto
next
  case False
  from assms have "\<lfloor>z\<rfloor> \<le> n"
    by (simp add: floor_le_iff)
  with False have f: "\<lfloor>z\<rfloor> = n"
    by simp
  then have "of_int n \<le> z"
    by (metis of_int_floor_le)
  with assms have "z = of_int n"
    by simp
  then show ?thesis
    by (simp add: round_even_def)
qed

lemma round_even_ge:
  assumes "of_int n \<le> z"
  shows "n \<le> round_even z"
proof -
  from assms have "n \<le> \<lfloor>z\<rfloor>"
    by (simp add: le_floor_iff)
  with round_even_cases [of z] show ?thesis
    by auto
qed

lemma nearest_error: "\<bar>nearest x - x\<bar> \<le> 2 powi (grid x - 1)"
proof -
  let ?g = "(2::rat) powi grid x"
  have g: "0 < ?g"
    by simp
  have "nearest x - x = (of_int (round_even (x / ?g)) - x / ?g) * ?g"
    using g by (simp add: nearest_def left_diff_distrib)
  then have "\<bar>nearest x - x\<bar> = \<bar>of_int (round_even (x / ?g)) - x / ?g\<bar> * ?g"
    using g by (simp add: abs_mult)
  also have "\<dots> \<le> 1/2 * ?g"
    using round_even_error [of "x / ?g"] g by (intro mult_right_mono) simp_all
  also have "\<dots> = 2 powi (grid x - 1)"
    by (simp add: power_int_diff)
  finally show ?thesis .
qed

lemma grid_error:
  assumes "x \<noteq> 0"
  shows "2 powi (grid x - 1) \<le> \<bar>x\<bar> / 2 ^ 53 + 1 / 2 ^ 1075"
proof (cases "- 1022 \<le> expo x")
  case True
  then have "(2::rat) powi (grid x - 1) = 2 powi expo x / 2 ^ 53"
    by (simp add: grid_def power_int_diff max_def)
  also have "\<dots> \<le> \<bar>x\<bar> / 2 ^ 53"
    using expo_bounds(1) [OF assms] by (simp add: divide_right_mono)
  finally show ?thesis
    by simp
next
  case False
  then have "(2::rat) powi (grid x - 1) = 2 powi (- 1075)"
    by (simp add: grid_def max_def)
  also have "\<dots> = 1 / 2 ^ 1075"
    by (simp add: power_int_minus_divide)
  finally show ?thesis
    by simp
qed

lemma nearest_zero: "nearest 0 = 0"
  by (simp add: nearest_def round_even_def)

lemma nearest_nonneg:
  assumes "0 \<le> x"
  shows "0 \<le> nearest x"
proof -
  have "of_int 0 \<le> x / 2 powi grid x"
    using assms by simp
  then have "0 \<le> round_even (x / 2 powi grid x)"
    by (rule round_even_ge)
  then show ?thesis
    by (simp add: nearest_def)
qed

lemma grid_mono:
  assumes "0 < x" "x \<le> c"
  shows "grid x \<le> grid c"
  using expo_mono [OF assms] by (simp add: grid_def)

lemma nearest_le:
  assumes c: "nearest c = c" and x: "0 < x" "x \<le> c"
  shows "nearest x \<le> c"
proof -
  let ?gx = "grid x" and ?gc = "grid c"
  define m where "m = round_even (c / 2 powi ?gc)"
  define N where "N = m * 2 ^ nat (?gc - ?gx)"
  have le: "?gx \<le> ?gc"
    using x by (rule grid_mono)
  have "(2::rat) powi ?gc = 2 powi (?gc - ?gx) * 2 powi ?gx"
    by (simp add: power_int_add [symmetric])
  also have "(2::rat) powi (?gc - ?gx) = 2 ^ nat (?gc - ?gx)"
    using le by (simp add: power_int_nonneg_exp)
  finally have g: "(2::rat) powi ?gc = 2 ^ nat (?gc - ?gx) * 2 powi ?gx" .
  have "c = of_int m * 2 powi ?gc"
    using c by (simp add: nearest_def m_def)
  then have cN: "c = of_int N * 2 powi ?gx"
    by (simp add: g N_def)
  then have "c / 2 powi ?gx = of_int N"
    by simp
  moreover have "x / 2 powi ?gx \<le> c / 2 powi ?gx"
    using x by (simp add: divide_right_mono)
  ultimately have "x / 2 powi ?gx \<le> of_int N"
    by simp
  then have "round_even (x / 2 powi ?gx) \<le> N"
    by (rule round_even_le)
  then have "(of_int (round_even (x / 2 powi ?gx)) :: rat) \<le> of_int N"
    by (simp only: of_int_le_iff)
  then have "nearest x \<le> of_int N * 2 powi ?gx"
    unfolding nearest_def by (intro mult_right_mono) simp_all
  with cN show ?thesis
    by simp
qed

lemma nearest_in_range:
  assumes c: "nearest c = c" and x: "0 \<le> x" "x \<le> c"
  shows "0 \<le> nearest x \<and> nearest x \<le> c \<and>
         \<bar>nearest x - x\<bar> \<le> x / 2 ^ 53 + 1 / 2 ^ 1075"
proof (cases "x = 0")
  case True
  with x show ?thesis
    by (simp add: nearest_zero)
next
  case False
  with x have pos: "0 < x"
    by simp
  have "\<bar>nearest x - x\<bar> \<le> 2 powi (grid x - 1)"
    by (rule nearest_error)
  also have "\<dots> \<le> \<bar>x\<bar> / 2 ^ 53 + 1 / 2 ^ 1075"
    using False by (rule grid_error)
  finally have "\<bar>nearest x - x\<bar> \<le> x / 2 ^ 53 + 1 / 2 ^ 1075"
    using pos by simp
  with nearest_nonneg [OF x(1)] nearest_le [OF c pos x(2)] show ?thesis
    by simp
qed

lemma double_bounds:
  assumes "double c"
  shows "nearest c = c" and "\<bar>c\<bar> < 2 powi 1024"
  using assms by (auto simp: double_def fl_def Let_def split: if_splits)

lemma fl_in_range:
  assumes c: "double c" and x: "0 \<le> x" "x \<le> c"
  shows "\<exists>y. fl x = Fin y \<and> 0 \<le> y \<and> y \<le> c \<and> \<bar>y - x\<bar> \<le> x / 2 ^ 53 + 1 / 2 ^ 1075"
proof -
  from nearest_in_range [OF double_bounds(1) [OF c] x]
  have n: "0 \<le> nearest x" "nearest x \<le> c" "\<bar>nearest x - x\<bar> \<le> x / 2 ^ 53 + 1 / 2 ^ 1075"
    by simp_all
  from n(1,2) double_bounds(2) [OF c] have "\<bar>nearest x\<bar> < 2 powi 1024"
    by simp
  then have "fl x = Fin (nearest x)"
    by (simp add: fl_def Let_def)
  with n show ?thesis
    by blast
qed

lemma double_1: "double 1"
  by code_simp

lemma double_100: "double 100"
  by code_simp

lemma round_trip_error:
  fixes d t q1 q2 q3 q4 u h :: rat
  assumes d: "0 < d" and u: "0 \<le> h" "h \<le> u"
    and q1: "0 \<le> q1" "q1 \<le> 1" and q2: "0 \<le> q2" "q2 \<le> 100" and q3: "0 \<le> q3" "q3 \<le> 1"
    and t: "0 \<le> t" "t \<le> d"
    and e1: "\<bar>q1 - t / d\<bar> \<le> t / d * u + h"
    and e2: "\<bar>q2 - q1 * 100\<bar> \<le> q1 * 100 * u + h"
    and e3: "\<bar>q3 - q2 / 100\<bar> \<le> q2 / 100 * u + h"
    and e4: "\<bar>q4 - q3 * d\<bar> \<le> q3 * d * u + h"
  shows "\<bar>q4 - t\<bar> \<le> 8 * (d * u) + h"
proof -
  have u0: "0 \<le> u"
    using u by simp
  have td: "0 \<le> t / d" "t / d \<le> 1"
    using d t by simp_all
  have b1: "\<bar>q1 - t / d\<bar> \<le> u + h"
  proof -
    have "t / d * u \<le> 1 * u"
      using td u0 by (intro mult_right_mono) simp_all
    with e1 show ?thesis by simp
  qed
  have b2: "\<bar>q2 - q1 * 100\<bar> \<le> 100 * u + h"
  proof -
    have "q1 * 100 * u \<le> 100 * u"
      using q1 u0 by (intro mult_right_mono) simp_all
    with e2 show ?thesis by simp
  qed
  have b3: "\<bar>q3 - q2 / 100\<bar> \<le> u + h"
  proof -
    have "q2 / 100 * u \<le> 1 * u"
      using q2 u0 by (intro mult_right_mono) simp_all
    with e3 show ?thesis by simp
  qed
  have b4: "\<bar>q4 - q3 * d\<bar> \<le> d * u + h"
  proof -
    have "q3 * d \<le> 1 * d"
      using q3 d by (intro mult_right_mono) simp_all
    then have "q3 * d * u \<le> d * u"
      using u0 by (simp add: mult_right_mono)
    with e4 show ?thesis by simp
  qed
  have split: "q4 - t = (q4 - q3 * d) + d * (q3 - q2 / 100) + d / 100 * (q2 - q1 * 100)
      + d * (q1 - t / d)"
    using d by (simp add: field_simps)
  have "\<bar>q4 - t\<bar> \<le> \<bar>q4 - q3 * d\<bar> + \<bar>d * (q3 - q2 / 100)\<bar> + \<bar>d / 100 * (q2 - q1 * 100)\<bar>
      + \<bar>d * (q1 - t / d)\<bar>"
    unfolding split by (intro order_trans [OF abs_triangle_ineq] add_mono order_refl)
  also have "\<bar>d * (q3 - q2 / 100)\<bar> = d * \<bar>q3 - q2 / 100\<bar>"
    using d by (simp add: abs_mult)
  also have "\<bar>d / 100 * (q2 - q1 * 100)\<bar> = d / 100 * \<bar>q2 - q1 * 100\<bar>"
    using d by (simp add: abs_mult)
  also have "\<bar>d * (q1 - t / d)\<bar> = d * \<bar>q1 - t / d\<bar>"
    using d by (simp add: abs_mult)
  finally have "\<bar>q4 - t\<bar> \<le> \<bar>q4 - q3 * d\<bar> + d * \<bar>q3 - q2 / 100\<bar> + d / 100 * \<bar>q2 - q1 * 100\<bar>
      + d * \<bar>q1 - t / d\<bar>" .
  moreover have "d * \<bar>q3 - q2 / 100\<bar> \<le> d * (u + h)"
    using b3 d by (intro mult_left_mono) simp_all
  moreover have "d / 100 * \<bar>q2 - q1 * 100\<bar> \<le> d / 100 * (100 * u + h)"
    using b2 d by (intro mult_left_mono) simp_all
  moreover have "d * \<bar>q1 - t / d\<bar> \<le> d * (u + h)"
    using b1 d by (intro mult_left_mono) simp_all
  ultimately have "\<bar>q4 - t\<bar> \<le> (d * u + h) + d * (u + h) + d / 100 * (100 * u + h) + d * (u + h)"
    using b4 by linarith
  also have "\<dots> = 4 * (d * u) + h + 201 / 100 * (d * h)"
    by (simp add: algebra_simps)
  also have "\<dots> \<le> 8 * (d * u) + h"
  proof -
    have "d * h \<le> d * u"
      using u d by (intro mult_left_mono) simp_all
    moreover have "0 \<le> d * u" "0 \<le> d * h"
      using d u u0 by simp_all
    ultimately show ?thesis
      by linarith
  qed
  finally show ?thesis .
qed

text \<open>
  The rounding at some values: one tenth, and two ties, which go to the even
  significand.
\<close>

lemma fl_examples:
  "fl (1 / 10) = Fin (3602879701896397 / 2 ^ 55) \<and>
   fl (1 + 1 / 2 ^ 53) = Fin 1 \<and>
   fl (1 + 3 / 2 ^ 53) = Fin (1 + 1 / 2 ^ 51)"
  by code_simp

lemma double_3: "double 3"
  by code_simp

lemma round_trip_inexact:
  "percentToTime64 (div64 (pct64 (Fin 3) (Fin 1)) (Fin 100)) (Fin 3) = Fin (1 - 1 / 2 ^ 52)"
  by code_simp

text \<open>
  Claim C6. For every duration \<open>d > 0\<close> and every \<open>t\<close> in \<open>[0, d]\<close>, mapping
  \<open>t\<close> to its percentage, and the percentage divided by 100 back to a time, gives
  \<open>t\<close> within a tolerance: computed in binary64 as the program computes it, the
  result \<open>r\<close> is a time of \<open>[0, d]\<close> with \<open>|r - t| <= d / 2^50 + 2^(-1075)\<close>.
\<close>

theorem C6_round_trip:
  "double d \<and> 0 < d \<and> 0 \<le> t \<and> t \<le> d \<longrightarrow>
     (\<exists>r. percentToTime64 (div64 (pct64 (Fin d) (Fin t)) (Fin 100)) (Fin d) = Fin r \<and>
        0 \<le> r \<and> r \<le> d \<and> \<bar>r - t\<bar> \<le> d / 2 ^ 50 + 1 / 2 ^ 1075)"
proof
  assume h: "double d \<and> 0 < d \<and> 0 \<le> t \<and> t \<le> d"
  then have d: "double d" "0 < d" and t: "0 \<le> t" "t \<le> d"
    by simp_all
  have td: "0 \<le> t / d" "t / d \<le> 1"
    using d t by simp_all
  from fl_in_range [OF double_1 td] obtain q1 where
    q1: "fl (t / d) = Fin q1" "0 \<le> q1" "q1 \<le> 1" "\<bar>q1 - t / d\<bar> \<le> t / d / 2 ^ 53 + 1 / 2 ^ 1075"
    by blast
  have "0 \<le> q1 * 100" "q1 * 100 \<le> 100"
    using q1 by simp_all
  from fl_in_range [OF double_100 this] obtain q2 where
    q2: "fl (q1 * 100) = Fin q2" "0 \<le> q2" "q2 \<le> 100"
      "\<bar>q2 - q1 * 100\<bar> \<le> q1 * 100 / 2 ^ 53 + 1 / 2 ^ 1075"
    by blast
  have "0 \<le> q2 / 100" "q2 / 100 \<le> 1"
    using q2 by simp_all
  from fl_in_range [OF double_1 this] obtain q3 where
    q3: "fl (q2 / 100) = Fin q3" "0 \<le> q3" "q3 \<le> 1"
      "\<bar>q3 - q2 / 100\<bar> \<le> q2 / 100 / 2 ^ 53 + 1 / 2 ^ 1075"
    by blast
  have "0 \<le> q3 * d" "q3 * d \<le> d"
    using q3 d by (simp_all add: mult_left_le_one_le)
  from fl_in_range [OF d(1) this] obtain q4 where
    q4: "fl (q3 * d) = Fin q4" "0 \<le> q4" "q4 \<le> d"
      "\<bar>q4 - q3 * d\<bar> \<le> q3 * d / 2 ^ 53 + 1 / 2 ^ 1075"
    by blast
  have p: "pct64 (Fin d) (Fin t) = Fin q2"
    using d q1 q2 by (simp add: pct64_def div64_def mul64_def)
  have r: "percentToTime64 (div64 (pct64 (Fin d) (Fin t)) (Fin 100)) (Fin d) = Fin q4"
    using q3 q4 by (simp add: p percentToTime64_def div64_def mul64_def)
  have "\<bar>q4 - t\<bar> \<le> 8 * (d * (1 / 2 ^ 53)) + 1 / 2 ^ 1075"
    using d(2) _ _ q1(2,3) q2(2,3) q3(2,3) t
  proof (rule round_trip_error)
    show "(0::rat) \<le> 1 / 2 ^ 1075"
      by simp
    show "(1::rat) / 2 ^ 1075 \<le> 1 / 2 ^ 53"
      by (simp add: frac_le power_increasing)
    show "\<bar>q1 - t / d\<bar> \<le> t / d * (1 / 2 ^ 53) + 1 / 2 ^ 1075"
      using q1(4) by simp
    show "\<bar>q2 - q1 * 100\<bar> \<le> q1 * 100 * (1 / 2 ^ 53) + 1 / 2 ^ 1075"
      using q2(4) by simp
    show "\<bar>q3 - q2 / 100\<bar> \<le> q2 / 100 * (1 / 2 ^ 53) + 1 / 2 ^ 1075"
      using q3(4) by simp
    show "\<bar>q4 - q3 * d\<bar> \<le> q3 * d * (1 / 2 ^ 53) + 1 / 2 ^ 1075"
      using q4(4) by simp
  qed
  also have "8 * (d * (1 / 2 ^ 53)) = d / 2 ^ 50"
    by simp
  finally have "\<bar>q4 - t\<bar> \<le> d / 2 ^ 50 + 1 / 2 ^ 1075" .
  with r q4 show "\<exists>r. percentToTime64 (div64 (pct64 (Fin d) (Fin t)) (Fin 100)) (Fin d) = Fin r \<and>
        0 \<le> r \<and> r \<le> d \<and> \<bar>r - t\<bar> \<le> d / 2 ^ 50 + 1 / 2 ^ 1075"
    by blast
qed

text \<open>
  The theorem at a duration of 3 and the time 1, where the round trip is not exact: it
  gives \<open>1 - 2^(-52)\<close>, which is 0.9999999999999998.
\<close>

theorem C6_round_trip_witness:
  "double 3 \<and>
   percentToTime64 (div64 (pct64 (Fin 3) (Fin 1)) (Fin 100)) (Fin 3) = Fin (1 - 1 / 2 ^ 52) \<and>
   \<bar>(1 - 1 / 2 ^ 52) - 1 :: rat\<bar> \<le> 3 / 2 ^ 50 + 1 / 2 ^ 1075"
proof -
  have d: "double 3"
    by (rule double_3)
  with C6_round_trip [of 3 1] obtain r where
    r: "percentToTime64 (div64 (pct64 (Fin 3) (Fin 1)) (Fin 100)) (Fin 3) = Fin r"
      "\<bar>r - 1\<bar> \<le> 3 / 2 ^ 50 + 1 / 2 ^ 1075"
    by auto
  from r(1) have "r = 1 - 1 / 2 ^ 52"
    by (simp only: round_trip_inexact jsnum.inject)
  with r d show ?thesis
    by (simp only: round_trip_inexact simp_thms)
qed

subsection \<open>The Timeline Renderer\<close>

lemma segment_style_zero:
  "segment_style (Fin 0) s =
     \<lparr>left = Fin 0, width = Fin (1/5), background = colorForMode (mode s)\<rparr>"
  by (simp add: segment_style_def pct_zero)

text \<open>
  Claim C7. The mapping from mode to color is total and depends on the mode alone: the
  three known modes have their fixed colors, every other mode has the neutral color
  \<open>#94a3b8\<close>, and every segment of the sequence is drawn, with the color of its mode.
\<close>

theorem C7_colorForMode:
  "colorForMode ''DIALOGUE_SCENE'' = ''#4f46e5'' \<and>
   colorForMode ''VISUAL_MONTAGE'' = ''#ef4444'' \<and>
   colorForMode ''VOICEOVER_WITH_PICTURE'' = ''#10b981'' \<and>
   (m \<noteq> ''DIALOGUE_SCENE'' \<and> m \<noteq> ''VISUAL_MONTAGE'' \<and> m \<noteq> ''VOICEOVER_WITH_PICTURE'' \<longrightarrow>
      colorForMode m = ''#94a3b8'') \<and>
   background (segment_style d s) = colorForMode (mode s) \<and>
   map background (segs (Timeline ss d p)) = map (\<lambda>s. colorForMode (mode s)) ss"
  by (simp add: colorForMode_def segment_style_def Timeline_def)

text \<open>The theorem at a mode that is not one of the three, and at the empty string.\<close>

theorem C7_colorForMode_witness:
  "colorForMode ''TITLE_CARD'' = ''#94a3b8'' \<and> colorForMode [] = ''#94a3b8''"
  using C7_colorForMode [of "''TITLE_CARD''"] C7_colorForMode [of "[]"]
  by simp

text \<open>
  Claim C8, as amended. When \<open>duration = 0\<close>, every segment is drawn at the left
  offset 0 with the floor width 0.2, and the playhead is drawn at 100 times the value
  the playhead state had when the duration became 0, which no tick changes while the
  duration is 0: at 0 when that value is 0, as it is on a fresh mount. An empty
  segment sequence gives a track with no segment.
\<close>

theorem C8_degenerate:
  "segs (Timeline ss (Fin 0) p) =
     map (\<lambda>s. \<lparr>left = Fin 0, width = Fin (1/5), background = colorForMode (mode s)\<rparr>) ss \<and>
   playhead_left (Timeline ss (Fin 0) (ticks rs (Fin 0) p)) = js_mul p (Fin 100) \<and>
   playhead_left (Timeline ss (Fin 0) (ticks rs (Fin 0) (Fin 0))) = Fin 0 \<and>
   Timeline [] d p = \<lparr>segs = [], playhead_left = js_mul p (Fin 100)\<rparr>"
  by (simp add: Timeline_def segment_style_zero ticks_idle)

text \<open>The theorem at one segment, and at one frame after a fresh mount.\<close>

theorem C8_degenerate_witness:
  "segs (Timeline [\<lparr>mode = ''VISUAL_MONTAGE'', start = Fin 10, stop = Fin 20\<rparr>] (Fin 0) (Fin 0)) =
     [\<lparr>left = Fin 0, width = Fin (1/5), background = ''#ef4444''\<rparr>] \<and>
   playhead_left (Timeline [] (Fin 0) (ticks [NoRef] (Fin 0) (Fin 0))) = Fin 0"
  using C8_degenerate [of "[\<lparr>mode = ''VISUAL_MONTAGE'', start = Fin 10, stop = Fin 20\<rparr>]" "Fin 0"
          "[]" "Fin 0"]
        C8_degenerate [of "[]" "Fin 0" "[NoRef]" "Fin 0"]
  by (simp add: colorForMode_def del: ticks.simps)

text \<open>
  Claim C8 as it is written fails for the playhead: it is at \<open>1/2\<close> (30 seconds of
  60) when the duration becomes 0, the tick at duration 0 leaves it there, and the
  track is drawn with the playhead at 50 percent.
\<close>

theorem C8_counterexample:
  "playhead_left (Timeline [] (Fin 0)
     (tick (Ref (Some \<lparr>currentTime = Fin 30\<rparr>)) (Fin 0)
        (tick (Ref (Some \<lparr>currentTime = Fin 30\<rparr>)) (Fin 60) (Fin 0)))) = Fin 50"
  by (simp add: Timeline_def tick_def tick_publish_def js_gt_def)






subsection \<open>Analysis and upload\<close>

text \<open>
  Claim C10. \<open>handleAnalyze\<close> and \<open>handleUpload\<close> set the segments to the empty
  list and the duration to 0 before the request is sent. A request that fails (a
  rejected fetch or a network error, a status outside 200..299, a body that does not
  parse) changes neither of them, so that after the handler they are still empty and 0.
\<close>

theorem C10_failed_request:
  "segments (fst (handleAnalyze_sync a)) = [] \<and>
   duration (fst (handleAnalyze_sync a)) = Fin 0 \<and>
   segments (fst (handleUpload_sync a)) = [] \<and>
   duration (fst (handleUpload_sync a)) = Fin 0 \<and>
   (fetch_fails out \<longrightarrow>
      segments (handleAnalyze_resume out b) = segments b \<and>
      duration (handleAnalyze_resume out b) = duration b \<and>
      segments (handleAnalyze out a) = [] \<and>
      duration (handleAnalyze out a) = Fin 0) \<and>
   ((\<forall>e \<in> set es. \<not> xhr_delivers e) \<longrightarrow>
      segments (xhr_run es b) = segments b \<and>
      duration (xhr_run es b) = duration b \<and>
      segments (handleUpload es a) = [] \<and>
      duration (handleUpload es a) = Fin 0)"
proof -
  have s1: "segments (fst (handleAnalyze_sync a)) = [] \<and>
            duration (fst (handleAnalyze_sync a)) = Fin 0"
    by (simp add: handleAnalyze_sync_def Let_def)
  have s2: "segments (fst (handleUpload_sync a)) = [] \<and>
            duration (fst (handleUpload_sync a)) = Fin 0"
    by (simp add: handleUpload_sync_def Let_def split: option.splits)
  have r1: "segments (handleAnalyze_resume out c) = segments c \<and>
            duration (handleAnalyze_resume out c) = duration c"
    if "fetch_fails out" for c
    using analyze_try_fails [OF that] by (auto simp: handleAnalyze_resume_def)
  have r2: "segments (handleAnalyze out a) = [] \<and> duration (handleAnalyze out a) = Fin 0"
    if "fetch_fails out"
    using s1 r1 [OF that]
    by (cases "handleAnalyze_sync a") (auto simp: handleAnalyze_def split: option.splits)
  have u2: "segments (handleUpload es a) = [] \<and> duration (handleUpload es a) = Fin 0"
    if "\<forall>e \<in> set es. \<not> xhr_delivers e"
    using s2 xhr_run_keeps [OF that]
    by (cases "handleUpload_sync a") (auto simp: handleUpload_def split: option.splits)
  from s1 s2 r1 r2 u2 xhr_run_keeps show ?thesis by blast
qed

text \<open>
  The theorem at a state that shows an earlier analysis: an analysis answered with
  status 500, and an upload that ends in a network error.
\<close>

theorem C10_failed_request_witness:
  "segments (handleAnalyze
      (Resolved \<lparr>status = 500, statusText = ''Internal Server Error'',
         responseText = Some ''boom'', responseBody = Unparsable\<rparr>)
      \<lparr>localFile = Some ''clip.mov'', serverPath = ''videos/Mihir_clip.MOV'',
       segments = [\<lparr>mode = ''DIALOGUE_SCENE'', start = Fin 0, stop = Fin 12\<rparr>],
       duration = Fin 60, loading = False, error = None, uploadProgress = None\<rparr>) = [] \<and>
   duration (handleAnalyze
      (Resolved \<lparr>status = 500, statusText = ''Internal Server Error'',
         responseText = Some ''boom'', responseBody = Unparsable\<rparr>)
      \<lparr>localFile = Some ''clip.mov'', serverPath = ''videos/Mihir_clip.MOV'',
       segments = [\<lparr>mode = ''DIALOGUE_SCENE'', start = Fin 0, stop = Fin 12\<rparr>],
       duration = Fin 60, loading = False, error = None, uploadProgress = None\<rparr>) = Fin 0 \<and>
   segments (handleUpload
      [Progress True (Fin 5) (Fin 10),
       ReadyStateChange 4 \<lparr>status = 0, statusText = [], responseText = None,
         responseBody = Unparsable\<rparr>,
       NetworkFailure]
      \<lparr>localFile = Some ''clip.mov'', serverPath = ''videos/Mihir_clip.MOV'',
       segments = [\<lparr>mode = ''DIALOGUE_SCENE'', start = Fin 0, stop = Fin 12\<rparr>],
       duration = Fin 60, loading = False, error = None, uploadProgress = None\<rparr>) = [] \<and>
   duration (handleUpload
      [Progress True (Fin 5) (Fin 10),
       ReadyStateChange 4 \<lparr>status = 0, statusText = [], responseText = None,
         responseBody = Unparsable\<rparr>,
       NetworkFailure]
      \<lparr>localFile = Some ''clip.mov'', serverPath = ''videos/Mihir_clip.MOV'',
       segments = [\<lparr>mode = ''DIALOGUE_SCENE'', start = Fin 0, stop = Fin 12\<rparr>],
       duration = Fin 60, loading = False, error = None, uploadProgress = None\<rparr>) = Fin 0"
  using C10_failed_request
    [of "\<lparr>localFile = Some ''clip.mov'', serverPath = ''videos/Mihir_clip.MOV'',
          segments = [\<lparr>mode = ''DIALOGUE_SCENE'', start = Fin 0, stop = Fin 12\<rparr>],
          duration = Fin 60, loading = False, error = None, uploadProgress = None\<rparr>"
        "Resolved \<lparr>status = 500, statusText = ''Internal Server Error'',
           responseText = Some ''boom'', responseBody = Unparsable\<rparr>"
        "\<lparr>localFile = None, serverPath = [], segments = [], duration = Fin 0, loading = False,
          error = None, uploadProgress = None\<rparr>"
        "[Progress True (Fin 5) (Fin 10),
          ReadyStateChange 4 \<lparr>status = 0, statusText = [], responseText = None,
            responseBody = Unparsable\<rparr>,
          NetworkFailure]"]
  by (simp add: ok_def del: xhr_run.simps)

end
